theory Spec2Isabelle
  imports Main "HOL-Library.Char_ord" "HOL-Library.List_Lexorder" "HOL-Library.Code_Target_Nat"
begin

section \<open>Python strings\<close>

text \<open>
  A Python \<open>str\<close> is a \<^typ>\<open>string\<close>; one \<^typ>\<open>char\<close> stands for one code point
  below 256, which covers every character the orchestrator itself tests for. The
  functions of this section are the built-in string methods that
  \<^verbatim>\<open>task_processor.py\<close> calls.
\<close>

abbreviation LF :: char where "LF \<equiv> CHR 0x0A"
abbreviation CR :: char where "CR \<equiv> CHR 0x0D"
abbreviation DQUOTE :: char where "DQUOTE \<equiv> CHR 0x22"
abbreviation SQUOTE :: char where "SQUOTE \<equiv> CHR 0x27"

text \<open>\<open>str.isspace\<close> on one character; it is also the class \<open>\s\<close> of \<open>re\<close>.\<close>

definition is_space :: "char \<Rightarrow> bool" where
  "is_space c =
     (c = CHR 0x09 \<or> c = LF \<or> c = CHR 0x0B \<or> c = CHR 0x0C \<or> c = CR \<or>
      c = CHR 0x1C \<or> c = CHR 0x1D \<or> c = CHR 0x1E \<or> c = CHR 0x1F \<or>
      c = CHR 0x20 \<or> c = CHR 0x85 \<or> c = CHR 0xA0)"

text \<open>The line boundaries of \<open>str.splitlines\<close>.\<close>

definition is_linebreak :: "char \<Rightarrow> bool" where
  "is_linebreak c =
     (c = LF \<or> c = CR \<or> c = CHR 0x0B \<or> c = CHR 0x0C \<or>
      c = CHR 0x1C \<or> c = CHR 0x1D \<or> c = CHR 0x1E \<or> c = CHR 0x85)"

definition lstrip :: "string \<Rightarrow> string" where
  "lstrip s = dropWhile is_space s"

definition rstrip :: "string \<Rightarrow> string" where
  "rstrip s = rev (dropWhile is_space (rev s))"

definition strip :: "string \<Rightarrow> string" where
  "strip s = rstrip (lstrip s)"

text \<open>\<open>s.startswith(p)\<close>.\<close>

definition startswith :: "string \<Rightarrow> string \<Rightarrow> bool" where
  "startswith s p = (take (length p) s = p)"

text \<open>\<open>s.find(c)\<close> for a one-character needle: the first index, or \<open>-1\<close>.\<close>

fun str_find :: "string \<Rightarrow> char \<Rightarrow> int" where
  "str_find [] c = -1"
| "str_find (x # xs) c =
     (if x = c then 0 else (let r = str_find xs c in if r = -1 then -1 else r + 1))"

text \<open>
  \<open>s.splitlines()\<close>: the lines without their boundaries; \<open>\r\n\<close> is one boundary, and
  a boundary at the very end opens no further line.
\<close>

fun splitlines :: "string \<Rightarrow> string list" where
  "splitlines [] = []"
| "splitlines (c # cs) =
     (if c = CR then
        (case cs of
           [] \<Rightarrow> [[]]
         | d # ds \<Rightarrow> if d = LF then [] # splitlines ds else [] # splitlines (d # ds))
      else if is_linebreak c then [] # splitlines cs
      else (case splitlines cs of [] \<Rightarrow> [[c]] | l # ls \<Rightarrow> (c # l) # ls))"

text \<open>\<open>str.lower\<close> on the code points below 256.\<close>

definition lower_char :: "char \<Rightarrow> char" where
  "lower_char c =
     (let n = (of_char c :: nat) in
      if (65 \<le> n \<and> n \<le> 90) \<or> (192 \<le> n \<and> n \<le> 222 \<and> n \<noteq> 215)
      then char_of (n + 32) else c)"

definition lower :: "string \<Rightarrow> string" where
  "lower s = map lower_char s"

text \<open>\<open>str(n)\<close> for a natural number.\<close>

fun str_nat :: "nat \<Rightarrow> string" where
  "str_nat n =
     (if n < 10 then [char_of (48 + n)]
      else str_nat (n div 10) @ [char_of (48 + n mod 10)])"

declare str_nat.simps [simp del]

section \<open>Exceptions\<close>

datatype py_error =
    IndexError
  | FileNotFoundError
  | FileExistsError
  | NotADirectoryError
  | IsADirectoryError
  | UnicodeDecodeError
  | ShutilError

text \<open>\<open>s[i]\<close>: raises outside the string; a negative index counts from the end.\<close>

definition str_index :: "string \<Rightarrow> int \<Rightarrow> py_error + char" where
  "str_index s i =
     (if 0 \<le> i \<and> i < int (length s) then Inr (s ! nat i)
      else if i < 0 \<and> - int (length s) \<le> i then Inr (s ! nat (int (length s) + i))
      else Inl IndexError)"

text \<open>\<open>d.get(k, default)\<close> on a dictionary of strings.\<close>

type_synonym meta = "string \<rightharpoonup> string"

definition dict_get :: "meta \<Rightarrow> string \<Rightarrow> string \<Rightarrow> string" where
  "dict_get m k d = (case m k of None \<Rightarrow> d | Some v \<Rightarrow> v)"

section \<open>Frontmatter parser\<close>

text \<open>
  \<^verbatim>\<open>re.match(r"^---\s*\n(.*?)\n---\s*\n?(.*)", text, re.DOTALL)\<close>, read as the
  backtracking matcher runs it.

  \<^item> \<open>find_close s\<close> is the lazy group \<open>(.*?)\<close> followed by \<open>\n---\<close>: the group grows one
    character at a time until \<open>\n---\<close> stands right after it. It returns the group and
    what follows the three hyphens.
  \<^item> \<open>open_at rest k\<close> is the greedy \<open>\s*\<close> followed by \<open>\n\<close>: \<open>\s*\<close> first takes the
    whole run of white space after the opening hyphens and gives characters back one
    at a time; after giving back to \<open>k - 1\<close> characters, the \<open>\n\<close> must be character
    \<open>k - 1\<close> of \<open>rest\<close>, and the remainder of the pattern is tried from there.
  \<^item> after the closing hyphens, the greedy \<open>\s*\<close> takes the whole run of white space,
    \<open>\n?\<close> then matches nothing (the next character is no white space), and \<open>(.*)\<close>
    takes all the rest, so the first attempt always succeeds and group 2 is the text
    after that run.
\<close>

fun find_close :: "string \<Rightarrow> (string \<times> string) option" where
  "find_close [] = None"
| "find_close (c # cs) =
     (if startswith (c # cs) (LF # ''---'') then Some ([], drop 4 (c # cs))
      else (case find_close cs of
              None \<Rightarrow> None
            | Some (g, after) \<Rightarrow> Some (c # g, after)))"

fun open_at :: "string \<Rightarrow> nat \<Rightarrow> (string \<times> string) option" where
  "open_at rest 0 = None"
| "open_at rest (Suc k) =
     (if rest ! k = LF then
        (case find_close (drop (Suc k) rest) of
           Some r \<Rightarrow> Some r
         | None \<Rightarrow> open_at rest k)
      else open_at rest k)"

definition frontmatter_match :: "string \<Rightarrow> (string \<times> string) option" where
  "frontmatter_match text =
     (if startswith text ''---'' then
        (let rest = drop 3 text in
         case open_at rest (length (takeWhile is_space rest)) of
           None \<Rightarrow> None
         | Some (yaml_block, after) \<Rightarrow> Some (yaml_block, dropWhile is_space after))
      else None)"

text \<open>
  The quote test of the loop body,
  \<^verbatim>\<open>len(value) >= 2 and value[0] == value[-1] and value[0] in ('"', "'")\<close>,
  with its indexing written as the operations that can raise, in the order Python
  evaluates them.
\<close>

definition strip_quotes :: "string \<Rightarrow> py_error + string" where
  "strip_quotes v =
     (if length v \<ge> 2 then
        (case str_index v 0 of
           Inl e \<Rightarrow> Inl e
         | Inr a \<Rightarrow>
            (case str_index v (-1) of
               Inl e \<Rightarrow> Inl e
             | Inr b \<Rightarrow>
                if a = b then
                  (case str_index v 0 of
                     Inl e \<Rightarrow> Inl e
                   | Inr a' \<Rightarrow>
                      if a' = DQUOTE \<or> a' = SQUOTE
                      then Inr (take (length v - 2) (drop 1 v))
                      else Inr v)
                else Inr v))
      else Inr v)"

text \<open>One round of the loop over \<open>yaml_block.splitlines()\<close>.\<close>

definition parse_line :: "meta \<Rightarrow> string \<Rightarrow> py_error + meta" where
  "parse_line m raw =
     (let line = strip raw in
      if line = [] \<or> startswith line ''#'' then Inr m
      else
        (let colon_idx = str_find line (CHR '':'') in
         if colon_idx = -1 then Inr m
         else
           (let key = strip (take (nat colon_idx) line);
                v = strip (drop (nat (colon_idx + 1)) line)
            in case strip_quotes v of
                 Inl e \<Rightarrow> Inl e
               | Inr v' \<Rightarrow> Inr (m(key \<mapsto> v')))))"

fun parse_lines :: "meta \<Rightarrow> string list \<Rightarrow> py_error + meta" where
  "parse_lines m [] = Inr m"
| "parse_lines m (l # ls) =
     (case parse_line m l of
        Inl e \<Rightarrow> Inl e
      | Inr m' \<Rightarrow> parse_lines m' ls)"

text \<open>
  \<open>parse_frontmatter\<close> from the text that \<open>read_text\<close> returned on. The reserved key
  holds the body.
\<close>

definition parse_text :: "string \<Rightarrow> py_error + meta" where
  "parse_text text =
     (case frontmatter_match text of
        None \<Rightarrow> Inr (Map.empty(''__body__'' \<mapsto> text))
      | Some (yaml_block, body) \<Rightarrow>
          parse_lines (Map.empty(''__body__'' \<mapsto> strip body)) (splitlines yaml_block))"

text \<open>
  What one round of the loop does, read off \<open>parse_line\<close>: the value with one pair of
  matching quotes removed, the key and the value of a line, the lines the loop skips,
  and the round as a function on the mapping. \<open>parse_line_returns\<close> and
  \<open>parse_lines_foldl\<close> below prove that these are what the code computes.
\<close>

definition unquote :: "string \<Rightarrow> string" where
  "unquote v =
     (if 2 \<le> length v \<and> v ! 0 = v ! (length v - 1) \<and> (v ! 0 = DQUOTE \<or> v ! 0 = SQUOTE)
      then take (length v - 2) (drop 1 v) else v)"

definition line_skipped :: "string \<Rightarrow> bool" where
  "line_skipped l =
     (strip l = [] \<or> startswith (strip l) ''#'' \<or> CHR '':'' \<notin> set (strip l))"

definition line_key :: "string \<Rightarrow> string" where
  "line_key l = strip (takeWhile (\<lambda>x. x \<noteq> CHR '':'') (strip l))"

definition line_value :: "string \<Rightarrow> string" where
  "line_value l = unquote (strip (drop 1 (dropWhile (\<lambda>x. x \<noteq> CHR '':'') (strip l))))"

definition apply_line :: "meta \<Rightarrow> string \<Rightarrow> meta" where
  "apply_line m l = (if line_skipped l then m else m(line_key l \<mapsto> line_value l))"

section \<open>Paths\<close>

text \<open>
  A \<open>pathlib.Path\<close> below the vault is the list of its components. \<open>name\<close>, \<open>suffix\<close>
  and \<open>stem\<close> are \<open>pathlib\<close>'s: the suffix starts at the last dot of the name, unless
  that dot is the first or the last character.
\<close>

type_synonym path = "string list"

definition path_name :: "path \<Rightarrow> string" where
  "path_name p = (if p = [] then [] else last p)"

definition path_parent :: "path \<Rightarrow> path" where
  "path_parent p = butlast p"

definition str_rfind :: "string \<Rightarrow> char \<Rightarrow> int" where
  "str_rfind s c =
     (let r = str_find (rev s) c in if r = -1 then -1 else int (length s) - 1 - r)"

definition name_suffix :: "string \<Rightarrow> string" where
  "name_suffix n =
     (let i = str_rfind n (CHR ''.'') in
      if 0 < i \<and> i < int (length n) - 1 then drop (nat i) n else [])"

definition name_stem :: "string \<Rightarrow> string" where
  "name_stem n =
     (let i = str_rfind n (CHR ''.'') in
      if 0 < i \<and> i < int (length n) - 1 then take (nat i) n else n)"

definition path_suffix :: "path \<Rightarrow> string" where
  "path_suffix p = name_suffix (path_name p)"

definition path_stem :: "path \<Rightarrow> string" where
  "path_stem p = name_stem (path_name p)"

text \<open>The stage folders of \<open>ensure_folders\<close> that the orchestrator uses.\<close>

definition Needs_Action :: path where "Needs_Action = [''Needs_Action'']"
definition In_Progress :: path where "In_Progress = [''In_Progress'']"
definition Done :: path where "Done = [''Done'']"
definition Approved :: path where "Approved = [''Approved'']"
definition Rejected :: path where "Rejected = [''Rejected'']"
definition Logs :: path where "Logs = [''Logs'']"

section \<open>The clock\<close>

text \<open>
  A reading of \<open>datetime.now()\<close>, with the three renderings the orchestrator uses:
  \<open>strftime('%Y%m%d_%H%M%S')\<close>, \<open>isoformat()\<close> and \<open>strftime('%Y-%m-%d %H:%M:%S')\<close>.
\<close>

record datetime =
  year :: nat
  month :: nat
  day :: nat
  hour :: nat
  minute :: nat
  second :: nat
  microsecond :: nat

definition zfill :: "nat \<Rightarrow> string \<Rightarrow> string" where
  "zfill n s = replicate (n - length s) (CHR ''0'') @ s"

definition stamp :: "datetime \<Rightarrow> string" where
  "stamp t =
     zfill 4 (str_nat (year t)) @ zfill 2 (str_nat (month t)) @ zfill 2 (str_nat (day t)) @
     ''_'' @
     zfill 2 (str_nat (hour t)) @ zfill 2 (str_nat (minute t)) @ zfill 2 (str_nat (second t))"

definition human :: "datetime \<Rightarrow> string" where
  "human t =
     zfill 4 (str_nat (year t)) @ ''-'' @ zfill 2 (str_nat (month t)) @ ''-'' @
     zfill 2 (str_nat (day t)) @ '' '' @
     zfill 2 (str_nat (hour t)) @ '':'' @ zfill 2 (str_nat (minute t)) @ '':'' @
     zfill 2 (str_nat (second t))"

definition isoformat :: "datetime \<Rightarrow> string" where
  "isoformat t =
     zfill 4 (str_nat (year t)) @ ''-'' @ zfill 2 (str_nat (month t)) @ ''-'' @
     zfill 2 (str_nat (day t)) @ ''T'' @
     zfill 2 (str_nat (hour t)) @ '':'' @ zfill 2 (str_nat (minute t)) @ '':'' @
     zfill 2 (str_nat (second t)) @
     (if microsecond t = 0 then [] else ''.'' @ zfill 6 (str_nat (microsecond t)))"

section \<open>The world the orchestrator acts on\<close>

text \<open>
  The vault is a list of regular files with their contents and a list of directories.
  A file holds text, or bytes that are not UTF-8 (all that \<open>read_text\<close> can tell).
  Beside the vault the world records the requests sent to the network, the lines of
  the logger that announce a record (the other lines are left out), and how many
  times the clock has been read.
\<close>

datatype content = Text string | Undecodable

record payload =
  p_to :: string
  p_subject :: string
  p_body :: string
  p_threadId :: "string option"

datatype log_line =
    New_task_detected string
  | Approval_received string
  | Rejection_noted string
  | All_watchers_active

record world =
  files :: "(path \<times> content) list"
  dirs :: "path list"
  requests :: "(string \<times> payload) list"
  logged :: "log_line list"
  clock_reads :: nat

definition lookup_file :: "world \<Rightarrow> path \<Rightarrow> content option" where
  "lookup_file w p = map_of (files w) p"

definition is_file :: "world \<Rightarrow> path \<Rightarrow> bool" where
  "is_file w p = (p \<in> set (map fst (files w)))"

definition is_dir :: "world \<Rightarrow> path \<Rightarrow> bool" where
  "is_dir w p = (p \<in> set (dirs w))"

text \<open>\<open>Path.exists()\<close>.\<close>

definition path_exists :: "world \<Rightarrow> path \<Rightarrow> bool" where
  "path_exists w p = (is_file w p \<or> is_dir w p)"

definition remove_entry :: "path \<Rightarrow> (path \<times> content) list \<Rightarrow> (path \<times> content) list" where
  "remove_entry p fs = filter (\<lambda>e. fst e \<noteq> p) fs"

definition put_entry ::
  "path \<Rightarrow> content \<Rightarrow> (path \<times> content) list \<Rightarrow> (path \<times> content) list" where
  "put_entry p c fs = (p, c) # remove_entry p fs"

text \<open>
  \<open>Path.mkdir(parents=True, exist_ok=True)\<close>: an existing directory is accepted; a
  regular file at the path or above it makes the call raise.
\<close>

definition ancestors :: "path \<Rightarrow> path list" where
  "ancestors d = map (\<lambda>n. take n d) [1..<length d]"

definition mkdir_p :: "world \<Rightarrow> path \<Rightarrow> py_error + world" where
  "mkdir_p w d =
     (if is_file w d then Inl FileExistsError
      else if list_ex (is_file w) (ancestors d) then Inl NotADirectoryError
      else Inr (w\<lparr>dirs := dirs w @ filter (\<lambda>a. \<not> is_dir w a) (ancestors d @ [d])\<rparr>))"

text \<open>\<open>Path.write_text\<close>: creates the file or replaces its content.\<close>

definition write_text :: "world \<Rightarrow> path \<Rightarrow> string \<Rightarrow> py_error + world" where
  "write_text w p s =
     (if is_dir w p then Inl IsADirectoryError
      else if \<not> is_dir w (path_parent p) then Inl FileNotFoundError
      else Inr (w\<lparr>files := put_entry p (Text s) (files w)\<rparr>))"

text \<open>\<open>Path.read_text(encoding="utf-8")\<close>.\<close>

definition read_text :: "world \<Rightarrow> path \<Rightarrow> py_error + string" where
  "read_text w p =
     (if is_dir w p then Inl IsADirectoryError
      else (case lookup_file w p of
              None \<Rightarrow> Inl FileNotFoundError
            | Some Undecodable \<Rightarrow> Inl UnicodeDecodeError
            | Some (Text s) \<Rightarrow> Inr s))"

text \<open>
  \<open>shutil.move(src, dst)\<close> for a source that is a regular file. A destination that is
  a directory receives the file under its own name, and \<open>shutil\<close> raises if that name
  is taken there. Otherwise the file is renamed to \<open>dst\<close>, and a regular file already
  at \<open>dst\<close> is replaced (by \<open>os.rename\<close>, or by the copy that \<open>shutil\<close> falls back to).
  A source directory is renamed with all that it holds.
\<close>

definition reroot :: "path \<Rightarrow> path \<Rightarrow> path \<Rightarrow> path" where
  "reroot src dst p = (if take (length src) p = src then dst @ drop (length src) p else p)"

definition rename :: "world \<Rightarrow> path \<Rightarrow> path \<Rightarrow> py_error + (path \<times> world)" where
  "rename w src dst =
     (case lookup_file w src of
        Some c \<Rightarrow>
          if \<not> is_dir w (path_parent dst) then Inl FileNotFoundError
          else Inr (dst, w\<lparr>files := put_entry dst c (remove_entry src (files w))\<rparr>)
      | None \<Rightarrow>
          if is_dir w src then
            (if \<not> is_dir w (path_parent dst) then Inl FileNotFoundError
             else if is_file w dst then Inl NotADirectoryError
             else Inr (dst, w\<lparr>files := map (\<lambda>(p, c). (reroot src dst p, c)) (files w),
                                dirs := map (reroot src dst) (dirs w)\<rparr>))
          else Inl FileNotFoundError)"

definition shutil_move :: "world \<Rightarrow> path \<Rightarrow> path \<Rightarrow> py_error + (path \<times> world)" where
  "shutil_move w src dst =
     (if is_dir w dst then
        (let real_dst = dst @ [path_name src] in
         if path_exists w real_dst then Inl ShutilError else rename w src real_dst)
      else rename w src dst)"

section \<open>The environment\<close>

text \<open>
  What the orchestrator does not decide: the flag \<open>--dry-run\<close>, the constant
  \<open>MCP_EMAIL_URL\<close>, the answer of the network to a request, the readings of the clock
  in the order they are taken, and the external processing step, which returns its
  success and may change the files and directories of the vault.
\<close>

datatype http_result =
    Reply bool "string option" "string option"
  | HTTPError nat string string
  | URLError string
  | Other_exception

record env =
  dry_run :: bool
  MCP_EMAIL_URL :: string
  urlopen :: "string \<Rightarrow> payload \<Rightarrow> http_result"
  now :: "nat \<Rightarrow> datetime"
  claude :: "path \<Rightarrow> (path \<times> content) list \<times> path list
               \<Rightarrow> bool \<times> (path \<times> content) list \<times> path list"

text \<open>The constant as the source sets it.\<close>

definition source_MCP_EMAIL_URL :: string where
  "source_MCP_EMAIL_URL = ''http://127.0.0.1:3000/send-email''"

definition datetime_now :: "env \<Rightarrow> world \<Rightarrow> datetime \<times> world" where
  "datetime_now e w = (now e (clock_reads w), w\<lparr>clock_reads := Suc (clock_reads w)\<rparr>)"

section \<open>File movement helpers\<close>

text \<open>\<open>dest_dir / name\<close>; joining the empty name gives the directory itself.\<close>

definition joinpath :: "path \<Rightarrow> string \<Rightarrow> path" where
  "joinpath d n = (if n = [] then d else d @ [n])"

text \<open>The name that round \<open>counter\<close> of the loop of \<open>move_file\<close> tries.\<close>

definition numbered :: "path \<Rightarrow> string \<Rightarrow> string \<Rightarrow> nat \<Rightarrow> path" where
  "numbered dest_dir stem suffix counter =
     joinpath dest_dir (stem @ ''_'' @ str_nat counter @ suffix)"

lemma str_nat_decode: "foldl (\<lambda>a c. 10 * a + (of_char c - 48)) 0 (str_nat n) = n"
proof (induction n rule: str_nat.induct)
  case (1 n)
  show ?case
  proof (cases "n < 10")
    case True
    then show ?thesis
      by (subst str_nat.simps) simp
  next
    case False
    have "n mod 10 < 10" by simp
    then have d: "(48 + n mod 10) mod 256 = 48 + n mod 10"
      by simp
    from False 1 have
      "foldl (\<lambda>a c. 10 * a + (of_char c - 48)) 0 (str_nat (n div 10)) = n div 10"
      by simp
    with False d show ?thesis
      by (subst str_nat.simps) simp
  qed
qed

lemma str_nat_inj: "str_nat a = str_nat b \<Longrightarrow> a = b"
  by (metis str_nat_decode)

lemma numbered_inj: "inj (numbered dest_dir stem suffix)"
  by (rule injI) (simp add: numbered_def joinpath_def str_nat_inj)

lemma finite_numbered_taken:
  "finite {k. path_exists w (numbered dest_dir stem suffix k)}"
proof -
  have "{k. path_exists w (numbered dest_dir stem suffix k)} =
      numbered dest_dir stem suffix -` (set (map fst (files w)) \<union> set (dirs w))"
    by (auto simp: path_exists_def is_file_def is_dir_def)
  then show ?thesis
    by (simp add: finite_vimageI numbered_inj)
qed

text \<open>
  The loop \<^verbatim>\<open>while dest.exists(): dest = dest_dir / f"{src.stem}_{counter}{src.suffix}"\<close>.
  It ends because the numbered names are pairwise different and the vault is finite.
\<close>

function free_dest :: "world \<Rightarrow> path \<Rightarrow> string \<Rightarrow> string \<Rightarrow> path \<Rightarrow> nat \<Rightarrow> path" where
  "free_dest w dest_dir stem suffix dest counter =
     (if path_exists w dest
      then free_dest w dest_dir stem suffix (numbered dest_dir stem suffix counter) (counter + 1)
      else dest)"
  by pat_completeness auto
termination
proof (relation "measure (\<lambda>(w, dest_dir, stem, suffix, dest, counter).
    2 * card {k. counter \<le> k \<and> path_exists w (numbered dest_dir stem suffix k)} +
    (if path_exists w dest then 1 else 0))", goal_cases)
  case 1
  show ?case by simp
next
  case (2 w dest_dir stem suffix dest counter)
  let ?P = "\<lambda>k. path_exists w (numbered dest_dir stem suffix k)"
  have fin: "finite {k. counter \<le> k \<and> ?P k}"
    by (rule finite_subset [OF _ finite_numbered_taken [of w dest_dir stem suffix]]) auto
  show ?case
  proof (cases "?P counter")
    case True
    have "{k. counter \<le> k \<and> ?P k} = insert counter {k. counter + 1 \<le> k \<and> ?P k}"
      using True by (auto simp: Suc_le_eq le_less)
    moreover have "counter \<notin> {k. counter + 1 \<le> k \<and> ?P k}"
      by simp
    moreover have "finite {k. counter + 1 \<le> k \<and> ?P k}"
      by (rule finite_subset [OF _ fin]) auto
    ultimately have "card {k. counter \<le> k \<and> ?P k} = Suc (card {k. counter + 1 \<le> k \<and> ?P k})"
      by simp
    with 2 True show ?thesis by simp
  next
    case False
    have "{k. counter \<le> k \<and> ?P k} = {k. counter + 1 \<le> k \<and> ?P k}"
      using False by (auto simp: Suc_le_eq le_less)
    with 2 False show ?thesis by simp
  qed
qed

declare free_dest.simps [simp del]

definition move_file ::
  "world \<Rightarrow> path \<Rightarrow> path \<Rightarrow> string \<Rightarrow> (py_error + path) \<times> world" where
  "move_file w src dest_dir pre =
     (case mkdir_p w dest_dir of
        Inl e \<Rightarrow> (Inl e, w)
      | Inr w1 \<Rightarrow>
          (let new_name = (if pre \<noteq> [] then pre @ path_name src else path_name src);
               dest = joinpath dest_dir new_name;
               dest' = free_dest w1 dest_dir (path_stem src) (path_suffix src) dest 1
           in case shutil_move w1 src dest' of
                Inl e \<Rightarrow> (Inl e, w1)
              | Inr (moved, w2) \<Rightarrow> (Inr dest', w2)))"

text \<open>\<^verbatim>\<open>logs_dir / f"Error_{ts}"\<close> for the reading \<open>t\<close> of the clock.\<close>

definition error_dir_of :: "datetime \<Rightarrow> path \<Rightarrow> path" where
  "error_dir_of t logs_dir = joinpath logs_dir (''Error_'' @ stamp t)"

definition move_to_error ::
  "env \<Rightarrow> world \<Rightarrow> path \<Rightarrow> path \<Rightarrow> (py_error + path) \<times> world" where
  "move_to_error e w task_file logs_dir =
     (let (t, w0) = datetime_now e w;
          error_dir = error_dir_of t logs_dir
      in case mkdir_p w0 error_dir of
           Inl err \<Rightarrow> (Inl err, w0)
         | Inr w1 \<Rightarrow>
             (let dest = joinpath error_dir (path_name task_file)
              in case shutil_move w1 task_file dest of
                   Inl err \<Rightarrow> (Inl err, w1)
                 | Inr (moved, w2) \<Rightarrow> (Inr dest, w2)))"

section \<open>Processing dispatcher\<close>

text \<open>
  \<open>invoke_claude\<close> catches every exception of the subprocess call and returns
  \<open>False\<close> for it, so only the flag and what the external step did to the vault
  remain; with \<open>--dry-run\<close> nothing is run.
\<close>

definition invoke_claude :: "env \<Rightarrow> world \<Rightarrow> path \<Rightarrow> bool \<times> world" where
  "invoke_claude e w task_file =
     (if dry_run e then (True, w)
      else (case claude e task_file (files w, dirs w) of
              (ok, fs, ds) \<Rightarrow> (ok, w\<lparr>files := fs, dirs := ds\<rparr>)))"

definition logger_info :: "log_line \<Rightarrow> world \<Rightarrow> world" where
  "logger_info l w = w\<lparr>logged := logged w @ [l]\<rparr>"

text \<open>
  \<open>NeedsActionHandler._handle_new_task\<close>. The pause \<open>time.sleep(1)\<close> changes nothing
  that the model holds.
\<close>

definition handle_new_task :: "env \<Rightarrow> world \<Rightarrow> path \<Rightarrow> (py_error + unit) \<times> world" where
  "handle_new_task e w src =
     (let w0 = logger_info (New_task_detected (path_name src)) w in
      if \<not> path_exists w0 src then (Inr (), w0)
      else
        (case move_file w0 src In_Progress [] of
           (Inl err, w1) \<Rightarrow> (Inl err, w1)
         | (Inr in_progress_file, w1) \<Rightarrow>
             (case invoke_claude e w1 in_progress_file of
                (success, w2) \<Rightarrow>
                  if success then (Inr (), w2)
                  else if path_exists w2 in_progress_file then
                    (case move_to_error e w2 in_progress_file Logs of
                       (Inl err, w3) \<Rightarrow> (Inl err, w3)
                     | (Inr moved, w3) \<Rightarrow> (Inr (), w3))
                  else (Inr (), w2))))"

text \<open>
  A filesystem event, and the two ends of \<open>on_created\<close> that work on the set
  \<open>self.processing\<close> of a handler: its first lines, up to
  \<open>self.processing.add(src.name)\<close>, and its \<open>finally\<close> clause
  \<open>self.processing.discard(src.name)\<close>.
\<close>

record event =
  is_directory :: bool
  src_path :: path

datatype entry = Skip | Drop | Enter

definition guard_enter :: "string set \<Rightarrow> event \<Rightarrow> entry \<times> string set" where
  "guard_enter processing ev =
     (if is_directory ev then (Skip, processing)
      else if path_suffix (src_path ev) \<noteq> ''.md'' then (Skip, processing)
      else if path_name (src_path ev) \<in> processing then (Drop, processing)
      else (Enter, insert (path_name (src_path ev)) processing))"

definition guard_exit :: "string set \<Rightarrow> event \<Rightarrow> string set" where
  "guard_exit processing ev = processing - {path_name (src_path ev)}"

text \<open>
  \<open>NeedsActionHandler.on_created\<close>. The \<open>finally\<close> clause runs whether the handling
  returned or raised, and the exception then goes on to the caller.
\<close>

datatype handled = Ignored | Dropped | Handled "py_error + unit"

definition needs_action_on_created ::
  "env \<Rightarrow> string set \<times> world \<Rightarrow> event \<Rightarrow> handled \<times> string set \<times> world" where
  "needs_action_on_created e s ev =
     (case s of (processing, w) \<Rightarrow>
        (case guard_enter processing ev of
           (Skip, processing1) \<Rightarrow> (Ignored, processing1, w)
         | (Drop, processing1) \<Rightarrow> (Dropped, processing1, w)
         | (Enter, processing1) \<Rightarrow>
             (case handle_new_task e w (src_path ev) of
                (r, w') \<Rightarrow> (Handled r, guard_exit processing1 ev, w'))))"

text \<open>
  Notifications and ends of handlings on one handler, in the order in which they
  reach its set: a notification runs the first lines of \<open>on_created\<close>, the end of a
  handling runs its \<open>finally\<close> clause.
\<close>

datatype guard_step = Notified event | Finished event

fun guard_steps :: "string set \<Rightarrow> guard_step list \<Rightarrow> string set" where
  "guard_steps processing [] = processing"
| "guard_steps processing (Notified ev # steps) =
     guard_steps (snd (guard_enter processing ev)) steps"
| "guard_steps processing (Finished ev # steps) =
     guard_steps (guard_exit processing ev) steps"


section \<open>Action executors\<close>

text \<open>\<open>sub in s\<close> for strings, and a text given by its lines.\<close>

fun contains :: "string \<Rightarrow> string \<Rightarrow> bool" where
  "contains [] sub = (sub = [])"
| "contains (c # cs) sub = (startswith (c # cs) sub \<or> contains cs sub)"

definition text_lines :: "string list \<Rightarrow> string" where
  "text_lines ls = concat (map (\<lambda>l. l @ [LF]) ls)"

text \<open>
  \<open>_log_action_result\<close>. The heading \<open>tag.replace('_', ' ').title()\<close> is written out for
  the two values the tag takes.
\<close>

definition log_action_result ::
  "env \<Rightarrow> world \<Rightarrow> path \<Rightarrow> string \<Rightarrow> string \<Rightarrow> string \<Rightarrow> (py_error + path) \<times> world" where
  "log_action_result e w source_file result action_type details =
     (let (ts, w0) = datetime_now e w;
          tag = (if result = ''SUCCESS'' then ''ACTION_SUCCESS'' else ''ACTION_FAILED'');
          heading = (if result = ''SUCCESS'' then ''Action Success'' else ''Action Failed'');
          doc = text_lines
            [''---'',
             ''type: action_log'',
             ''result: '' @ lower result,
             ''action_type: '' @ action_type,
             ''source_file: '' @ [DQUOTE] @ path_name source_file @ [DQUOTE],
             ''executed_at: '' @ isoformat ts,
             ''---'',
             '''',
             ''## '' @ heading,
             '''',
             ''**Action:** '' @ action_type,
             ''**Source:** '' @ path_name source_file,
             ''**Time:** '' @ human ts,
             ''**Details:** '' @ details];
          log_file = joinpath Logs
            (tag @ ''_'' @ stamp ts @ ''_'' @ path_stem source_file @ ''.md'')
      in case write_text w0 log_file doc of
           Inl err \<Rightarrow> (Inl err, w0)
         | Inr w1 \<Rightarrow> (Inr log_file, w1))"

text \<open>
  The handler \<open>except Exception\<close> of \<open>_action_send_email\<close>: it logs the failure and
  returns \<open>False\<close>; an exception of the logging itself leaves the function. (The dash
  of its message is a code point above 255 and is written as a hyphen.)
\<close>

definition failed_unexpectedly :: "env \<Rightarrow> world \<Rightarrow> path \<Rightarrow> (py_error + bool) \<times> world" where
  "failed_unexpectedly e w approved_file =
     (case log_action_result e w approved_file ''FAILED'' ''send_email''
             ''Unexpected error - see processor logs'' of
        (Inl err, w') \<Rightarrow> (Inl err, w')
      | (Inr log_file, w') \<Rightarrow> (Inr False, w'))"

text \<open>
  \<open>_action_send_email\<close>. The request is recorded in \<open>requests\<close> at the call of
  \<open>urlopen\<close>, before its answer is known; no other part of the model adds to
  \<open>requests\<close>.
\<close>

definition action_send_email ::
  "env \<Rightarrow> world \<Rightarrow> path \<Rightarrow> meta \<Rightarrow> (py_error + bool) \<times> world" where
  "action_send_email e w approved_file m =
     (let to = strip (dict_get m ''to'' []);
          subject = strip (dict_get m ''subject'' []);
          body = (if strip (dict_get m ''body'' []) \<noteq> [] then strip (dict_get m ''body'' [])
                  else strip (dict_get m ''__body__'' []));
          missing = (if to = [] then [''to''] else []) @
                    (if subject = [] then [''subject''] else []) @
                    (if body = [] then [''body''] else [])
      in
      if missing \<noteq> [] then (Inr False, w)
      else if CHR ''@'' \<notin> set to then (Inr False, w)
      else if \<not> contains (MCP_EMAIL_URL e) ''127.0.0.1'' \<and>
              \<not> contains (MCP_EMAIL_URL e) ''localhost'' then (Inr False, w)
      else
        (let thread_id = strip (dict_get m ''threadId'' []);
             request = \<lparr>p_to = to, p_subject = subject, p_body = body,
                        p_threadId = (if thread_id \<noteq> [] then Some thread_id else None)\<rparr>
         in
         if dry_run e then (Inr True, w)
         else
           (let w1 = w\<lparr>requests := requests w @ [(MCP_EMAIL_URL e, request)]\<rparr> in
            case urlopen e (MCP_EMAIL_URL e) request of
              Reply ok message_id error_msg \<Rightarrow>
                (case log_action_result e w1 approved_file
                        (if ok then ''SUCCESS'' else ''FAILED'') ''send_email''
                        (if ok then ''Email sent to '' @ to @ '' (messageId='' @
                                    (case message_id of None \<Rightarrow> ''unknown'' | Some i \<Rightarrow> i) @ '')''
                         else ''MCP error: '' @
                                (case error_msg of None \<Rightarrow> ''Unknown error'' | Some x \<Rightarrow> x)) of
                   (Inl err, w2) \<Rightarrow> failed_unexpectedly e w2 approved_file
                 | (Inr log_file, w2) \<Rightarrow> (Inr ok, w2))
            | HTTPError code error_body reason \<Rightarrow>
                (case log_action_result e w1 approved_file ''FAILED'' ''send_email''
                        (''HTTP '' @ str_nat code @ '': '' @
                         (if error_body \<noteq> [] then error_body else reason)) of
                   (Inl err, w2) \<Rightarrow> (Inl err, w2)
                 | (Inr log_file, w2) \<Rightarrow> (Inr False, w2))
            | URLError reason \<Rightarrow>
                (case log_action_result e w1 approved_file ''FAILED'' ''send_email''
                        (''Connection failed: '' @ reason) of
                   (Inl err, w2) \<Rightarrow> (Inl err, w2)
                 | (Inr log_file, w2) \<Rightarrow> (Inr False, w2))
            | Other_exception \<Rightarrow> failed_unexpectedly e w1 approved_file)))"

text \<open>\<open>_action_placeholder\<close>: the unimplemented actions.\<close>

definition action_placeholder ::
  "env \<Rightarrow> world \<Rightarrow> path \<Rightarrow> meta \<Rightarrow> (py_error + bool) \<times> world" where
  "action_placeholder e w approved_file m =
     (let action_type = dict_get m ''action_type'' ''unknown'';
          (ts, w0) = datetime_now e w;
          notification = text_lines
            [''---'',
             ''type: action_not_implemented'',
             ''original_file: '' @ [DQUOTE] @ path_name approved_file @ [DQUOTE],
             ''action_type: '' @ action_type,
             ''created: '' @ isoformat ts,
             ''priority: medium'',
             ''status: pending'',
             ''---'',
             '''',
             ''## Action Not Yet Implemented'',
             '''',
             ''The action **'' @ action_type @ ''** was approved but has no automated handler yet.'',
             ''Please execute manually.'',
             '''',
             ''**Original file:** '' @ path_name approved_file,
             '''',
             ''## Manual Steps'',
             '''',
             ''- [ ] Perform the '' @ [SQUOTE] @ action_type @ [SQUOTE] @ '' action manually'',
             ''- [ ] Move original to `Done/` when complete'',
             ''- [ ] Log outcome in `Logs/`''];
          notif_file = joinpath Needs_Action
            (''MANUAL_'' @ stamp ts @ ''_'' @ path_stem approved_file @ ''.md'')
      in case write_text w0 notif_file notification of
           Inl err \<Rightarrow> (Inl err, w0)
         | Inr w1 \<Rightarrow> (Inr True, w1))"

text \<open>\<open>execute_action\<close> and its dispatch table.\<close>

datatype action_handler = Send_email | Placeholder

definition dispatch :: "string \<Rightarrow> action_handler option" where
  "dispatch action_type =
     (if action_type = ''send_email'' then Some Send_email
      else if action_type = ''post_linkedin'' then Some Placeholder
      else if action_type = ''post_twitter'' then Some Placeholder
      else if action_type = ''create_invoice'' then Some Placeholder
      else if action_type = ''schedule_meeting'' then Some Placeholder
      else None)"

definition execute_action ::
  "env \<Rightarrow> world \<Rightarrow> path \<Rightarrow> meta \<Rightarrow> (py_error + bool) \<times> world" where
  "execute_action e w approved_file m =
     (let action_type = lower (strip (dict_get m ''action_type'' [])) in
      if action_type = [] then (Inr True, w)
      else (case dispatch action_type of
              None \<Rightarrow> (Inr False, w)
            | Some Send_email \<Rightarrow> action_send_email e w approved_file m
            | Some Placeholder \<Rightarrow> action_placeholder e w approved_file m))"

section \<open>Approval dispatcher\<close>

text \<open>\<open>parse_frontmatter\<close>: read the file, then parse its text.\<close>

definition parse_frontmatter :: "world \<Rightarrow> path \<Rightarrow> py_error + meta" where
  "parse_frontmatter w file_path =
     (case read_text w file_path of
        Inl err \<Rightarrow> Inl err
      | Inr text \<Rightarrow> parse_text text)"

text \<open>\<open>ApprovalHandler._log_approval\<close>.\<close>

definition log_approval :: "env \<Rightarrow> world \<Rightarrow> path \<Rightarrow> (py_error + unit) \<times> world" where
  "log_approval e w approved_file =
     (let (ts, w0) = datetime_now e w;
          log_entry = text_lines
            [''---'',
             ''type: approval_log'',
             ''approved_file: '' @ [DQUOTE] @ path_name approved_file @ [DQUOTE],
             ''approved_at: '' @ isoformat ts,
             ''---'',
             '''',
             ''## Approval Received'',
             '''',
             ''**File:** '' @ path_name approved_file,
             ''**Approved at:** '' @ human ts];
          log_file = joinpath Logs
            (''APPROVED_'' @ stamp ts @ ''_'' @ path_stem approved_file @ ''.md'')
      in case write_text w0 log_file log_entry of
           Inl err \<Rightarrow> (Inl err, w0)
         | Inr w1 \<Rightarrow> (Inr (), w1))"

text \<open>\<open>ApprovalHandler._create_failure_notification\<close>.\<close>

definition create_failure_notification ::
  "env \<Rightarrow> world \<Rightarrow> path \<Rightarrow> meta \<Rightarrow> (py_error + unit) \<times> world" where
  "create_failure_notification e w approved_file m =
     (let (ts, w0) = datetime_now e w;
          action_type = dict_get m ''action_type'' ''unknown'';
          notification = text_lines
            [''---'',
             ''type: action_failure_alert'',
             ''original_file: '' @ [DQUOTE] @ path_name approved_file @ [DQUOTE],
             ''action_type: '' @ action_type,
             ''failed_at: '' @ isoformat ts,
             ''priority: high'',
             ''status: pending'',
             ''---'',
             '''',
             ''## Action Execution Failed'',
             '''',
             ''The approved action **'' @ action_type @ ''** could not be executed.'',
             '''',
             ''**Original file:** `Approved/'' @ path_name approved_file @ ''`'',
             ''**Failed at:** '' @ human ts,
             '''',
             ''## Suggested Actions'',
             '''',
             ''- [ ] Check `Logs/ACTION_FAILED_*.md` for error details'',
             ''- [ ] Verify the MCP server is running (`GET http://127.0.0.1:3000/health`)'',
             ''- [ ] Fix the issue and move the file back to `Approved/` to retry'',
             ''- [ ] Or execute the action manually and move to `Done/`''];
          notif_file = joinpath Needs_Action
            (''ALERT_FAILED_'' @ stamp ts @ ''_'' @ path_stem approved_file @ ''.md'')
      in case write_text w0 notif_file notification of
           Inl err \<Rightarrow> (Inl err, w0)
         | Inr w1 \<Rightarrow> (Inr (), w1))"

text \<open>
  \<open>ApprovalHandler._handle_approval\<close>. Only the parsing stands in a \<open>try\<close>; an
  exception of any other step leaves the function.
\<close>

definition handle_approval :: "env \<Rightarrow> world \<Rightarrow> path \<Rightarrow> (py_error + unit) \<times> world" where
  "handle_approval e w approved_file =
     (let w0 = logger_info (Approval_received (path_name approved_file)) w in
      if \<not> path_exists w0 approved_file then (Inr (), w0)
      else
        (case log_approval e w0 approved_file of
           (Inl err, w1) \<Rightarrow> (Inl err, w1)
         | (Inr u, w1) \<Rightarrow>
             (let m = (case parse_frontmatter w1 approved_file of
                         Inl err \<Rightarrow> Map.empty
                       | Inr parsed \<Rightarrow> parsed);
                  action_type = lower (strip (dict_get m ''action_type'' []))
              in case (if action_type \<noteq> [] then execute_action e w1 approved_file m
                       else (Inr True, w1)) of
                   (Inl err, w2) \<Rightarrow> (Inl err, w2)
                 | (Inr success, w2) \<Rightarrow>
                     if success \<and> path_exists w2 approved_file then
                       (case move_file w2 approved_file Done [] of
                          (Inl err, w3) \<Rightarrow> (Inl err, w3)
                        | (Inr moved, w3) \<Rightarrow> (Inr (), w3))
                     else if \<not> success \<and> path_exists w2 approved_file then
                       create_failure_notification e w2 approved_file m
                     else (Inr (), w2))))"

definition approval_on_created ::
  "env \<Rightarrow> string set \<times> world \<Rightarrow> event \<Rightarrow> handled \<times> string set \<times> world" where
  "approval_on_created e s ev =
     (case s of (processing, w) \<Rightarrow>
        (case guard_enter processing ev of
           (Skip, processing1) \<Rightarrow> (Ignored, processing1, w)
         | (Drop, processing1) \<Rightarrow> (Dropped, processing1, w)
         | (Enter, processing1) \<Rightarrow>
             (case handle_approval e w (src_path ev) of
                (r, w') \<Rightarrow> (Handled r, guard_exit processing1 ev, w'))))"

section \<open>Rejection recorder\<close>

definition rejection_on_created :: "env \<Rightarrow> world \<Rightarrow> event \<Rightarrow> handled \<times> world" where
  "rejection_on_created e w ev =
     (if is_directory ev then (Ignored, w)
      else if path_suffix (src_path ev) \<noteq> ''.md'' then (Ignored, w)
      else
        (let src = src_path ev;
             w0 = logger_info (Rejection_noted (path_name src)) w;
             (ts, w1) = datetime_now e w0;
             log_entry = text_lines
               [''---'',
                ''type: rejection_log'',
                ''rejected_file: '' @ [DQUOTE] @ path_name src @ [DQUOTE],
                ''rejected_at: '' @ isoformat ts,
                ''---'',
                '''',
                ''## Rejection Recorded'',
                '''',
                ''**File:** '' @ path_name src,
                ''**Rejected at:** '' @ human ts,
                ''**Reason:** (CEO to fill in)''];
             log_file = joinpath Logs
               (''REJECTED_'' @ stamp ts @ ''_'' @ path_stem src @ ''.md'')
         in case write_text w1 log_file log_entry of
              Inl err \<Rightarrow> (Handled (Inl err), w1)
            | Inr w2 \<Rightarrow> (Handled (Inr ()), w2)))"

section \<open>Start-up and the watchers\<close>

text \<open>
  \<open>needs_action.glob("*.md")\<close>: the entries of the folder whose name ends in \<open>.md\<close>,
  in no particular order.
\<close>

definition endswith :: "string \<Rightarrow> string \<Rightarrow> bool" where
  "endswith s p = (length p \<le> length s \<and> drop (length s - length p) s = p)"

definition glob_md :: "world \<Rightarrow> path \<Rightarrow> path list" where
  "glob_md w folder =
     filter (\<lambda>p. p \<noteq> [] \<and> path_parent p = folder \<and> endswith (path_name p) ''.md'')
       (remdups (map fst (files w) @ dirs w))"

text \<open>
  The loop of \<open>process_backlog\<close> over the sorted backlog: an exception of one
  handling ends the loop.
\<close>

fun handle_each :: "env \<Rightarrow> world \<Rightarrow> path list \<Rightarrow> (py_error + unit) \<times> world" where
  "handle_each e w [] = (Inr (), w)"
| "handle_each e w (task_file # rest) =
     (case handle_new_task e w task_file of
        (Inl err, w') \<Rightarrow> (Inl err, w')
      | (Inr u, w') \<Rightarrow> handle_each e w' rest)"

definition process_backlog :: "env \<Rightarrow> world \<Rightarrow> (py_error + unit) \<times> world" where
  "process_backlog e w =
     (let backlog = sort (glob_md w Needs_Action) in
      if backlog = [] then (Inr (), w) else handle_each e w backlog)"

text \<open>\<open>ensure_folders\<close>: the eleven folders, made in this order.\<close>

definition folder_names :: "string list" where
  "folder_names =
     [''Needs_Action'', ''In_Progress'', ''Plans'', ''Done'', ''Pending_Approval'',
      ''Approved'', ''Rejected'', ''Accounting'', ''Logs'', ''Briefings'', ''Updates'']"

fun make_folders :: "world \<Rightarrow> string list \<Rightarrow> (py_error + unit) \<times> world" where
  "make_folders w [] = (Inr (), w)"
| "make_folders w (n # ns) =
     (case mkdir_p w [n] of
        Inl err \<Rightarrow> (Inl err, w)
      | Inr w' \<Rightarrow> make_folders w' ns)"

definition ensure_folders :: "world \<Rightarrow> (py_error + unit) \<times> world" where
  "ensure_folders w = make_folders w folder_names"

text \<open>
  The observer: each event goes to the handler of the folder it lies in, one event
  after the other; an exception of a handler ends the dispatching. The state holds the
  \<open>processing\<close> sets of the two guarded handlers.
\<close>

record watchers =
  needs_processing :: "string set"
  approval_processing :: "string set"
  vault :: world

definition dispatch_event :: "env \<Rightarrow> watchers \<Rightarrow> event \<Rightarrow> handled \<times> watchers" where
  "dispatch_event e s ev =
     (if path_parent (src_path ev) = Needs_Action then
        (case needs_action_on_created e (needs_processing s, vault s) ev of
           (h, processing, w) \<Rightarrow> (h, s\<lparr>needs_processing := processing, vault := w\<rparr>))
      else if path_parent (src_path ev) = Approved then
        (case approval_on_created e (approval_processing s, vault s) ev of
           (h, processing, w) \<Rightarrow> (h, s\<lparr>approval_processing := processing, vault := w\<rparr>))
      else if path_parent (src_path ev) = Rejected then
        (case rejection_on_created e (vault s) ev of
           (h, w) \<Rightarrow> (h, s\<lparr>vault := w\<rparr>))
      else (Ignored, s))"

fun run_events :: "env \<Rightarrow> watchers \<Rightarrow> event list \<Rightarrow> (py_error + unit) \<times> watchers" where
  "run_events e s [] = (Inr (), s)"
| "run_events e s (ev # evs) =
     (case dispatch_event e s ev of
        (Handled (Inl err), s') \<Rightarrow> (Inl err, s')
      | (h, s') \<Rightarrow> run_events e s' evs)"

text \<open>
  \<open>main\<close> from the point where the vault path is known to be a directory: the
  folders, the backlog unless \<open>--skip-backlog\<close> is given, then the watchers.
  \<open>startup\<close> is \<open>main\<close> up to \<open>observer.start()\<close>; \<open>evs\<close> are the events the observer
  delivers afterwards.
\<close>

definition startup :: "env \<Rightarrow> bool \<Rightarrow> world \<Rightarrow> (py_error + unit) \<times> world" where
  "startup e skip_backlog w =
     (case ensure_folders w of
        (Inl err, w1) \<Rightarrow> (Inl err, w1)
      | (Inr u, w1) \<Rightarrow>
          (case (if \<not> skip_backlog then process_backlog e w1 else (Inr (), w1)) of
             (Inl err, w2) \<Rightarrow> (Inl err, w2)
           | (Inr u', w2) \<Rightarrow> (Inr (), logger_info All_watchers_active w2)))"

definition main :: "env \<Rightarrow> bool \<Rightarrow> world \<Rightarrow> event list \<Rightarrow> (py_error + unit) \<times> world" where
  "main e skip_backlog w evs =
     (case startup e skip_backlog w of
        (Inl err, w1) \<Rightarrow> (Inl err, w1)
      | (Inr u, w1) \<Rightarrow>
          (case run_events e
                  \<lparr>needs_processing = {}, approval_processing = {}, vault = w1\<rparr> evs of
             (r, s) \<Rightarrow> (r, vault s)))"

section \<open>Example worlds\<close>

text \<open>
  A vault in which the inbox and the approved folder each hold a record named
  \<open>x.md\<close> and the completed folder already holds a file of that name; and the same
  vault after the inbox record has been moved to the completed folder.
\<close>

definition inbox_x :: path where "inbox_x = [''Needs_Action'', ''x.md'']"
definition approved_x :: path where "approved_x = [''Approved'', ''x.md'']"
definition done_x :: path where "done_x = [''Done'', ''x.md'']"
definition done_x_1 :: path where "done_x_1 = [''Done'', ''x_1.md'']"
definition done_x_2 :: path where "done_x_2 = [''Done'', ''x_2.md'']"

definition vault_two_records :: world where
  "vault_two_records =
     \<lparr>files = [(inbox_x, Text ''one''), (approved_x, Text ''two''), (done_x, Text ''old'')],
      dirs = [Needs_Action, Approved, Done, Logs],
      requests = [], logged = [], clock_reads = 0\<rparr>"

definition vault_after_first_move :: world where
  "vault_after_first_move =
     vault_two_records\<lparr>files :=
       [(done_x_1, Text ''one''), (approved_x, Text ''two''), (done_x, Text ''old'')]\<rparr>"

text \<open>
  An environment whose external step always fails and leaves the vault alone, and
  whose clock readings all fall into the same second; a vault with one inbox record
  \<open>a.md\<close>; the vault once that record stands in the active folder; and the vault
  after the failed record has gone to the error folder and a new record of the same
  name has arrived in the inbox.
\<close>

definition same_second :: "nat \<Rightarrow> datetime" where
  "same_second n =
     \<lparr>year = 2026, month = 2, day = 13, hour = 9, minute = 0, second = 0, microsecond = n\<rparr>"

definition env_failing :: env where
  "env_failing =
     \<lparr>dry_run = False, MCP_EMAIL_URL = source_MCP_EMAIL_URL,
      urlopen = (\<lambda>url p. Other_exception), now = same_second,
      claude = (\<lambda>task (fs, ds). (False, fs, ds))\<rparr>"

definition inbox_a :: path where "inbox_a = [''Needs_Action'', ''a.md'']"

definition stage_dirs :: "path list" where
  "stage_dirs = [[], Needs_Action, In_Progress, Done, Approved, Rejected, Logs]"

definition vault_task_a :: world where
  "vault_task_a =
     \<lparr>files = [(inbox_a, Text ''first'')], dirs = stage_dirs,
      requests = [], logged = [], clock_reads = 0\<rparr>"




text \<open>
  An environment whose endpoint answers every request with success and message id
  \<open>m1\<close>, and one whose endpoint cannot be reached; an approved record \<open>A.md\<close> that
  directs a message to Alice, its header as parsed, the same header without \<open>to\<close>, and
  the vault that holds the record in the approved folder.
\<close>

definition noon :: "nat \<Rightarrow> datetime" where
  "noon n =
     \<lparr>year = 2026, month = 2, day = 13, hour = 12, minute = 0, second = n, microsecond = 0\<rparr>"

definition env_mail_ok :: env where
  "env_mail_ok =
     \<lparr>dry_run = False, MCP_EMAIL_URL = source_MCP_EMAIL_URL,
      urlopen = (\<lambda>url p. Reply True (Some ''m1'') None), now = noon,
      claude = (\<lambda>task (fs, ds). (True, fs, ds))\<rparr>"

definition env_mail_down :: env where
  "env_mail_down = env_mail_ok\<lparr>urlopen := (\<lambda>url p. URLError ''Connection refused'')\<rparr>"










text \<open>
  An approved record \<open>B.md\<close> that directs a message but names no recipient (the
  record of the validation test of the repository), and the vault holding it.
\<close>

definition approved_B :: path where "approved_B = [''Approved'', ''B.md'']"

definition doc_B :: string where
  "doc_B = text_lines
     [''---'',
      ''action_type: send_email'',
      ''subject: '' @ [DQUOTE] @ ''Missing recipient'' @ [DQUOTE],
      ''body: This should fail validation.'',
      ''---'']"

definition vault_B :: world where
  "vault_B =
     \<lparr>files = [(approved_B, Text doc_B)], dirs = stage_dirs,
      requests = [], logged = [], clock_reads = 0\<rparr>"

text \<open>
  The creation event of the inbox record \<open>a.md\<close>, the set that holds its name, and a
  vault in which a regular file stands where the active folder should be, so that
  the handling of the record raises.
\<close>

definition ev_a :: event where
  "ev_a = \<lparr>is_directory = False, src_path = inbox_a\<rparr>"

definition held_a :: "string set" where
  "held_a = {''a.md''}"

definition vault_blocked :: world where
  "vault_blocked =
     \<lparr>files = [(inbox_a, Text ''first''), (In_Progress, Text ''not a folder'')],
      dirs = [[], Needs_Action, Logs],
      requests = [], logged = [], clock_reads = 0\<rparr>"

definition alert_B :: path where
  "alert_B = [''Needs_Action'', ''ALERT_FAILED_20260213_120001_B.md'']"

definition approval_log_B :: path where
  "approval_log_B = [''Logs'', ''APPROVED_20260213_120000_B.md'']"

text \<open>
  The vault of \<open>B.md\<close> once the approval has been logged, and the header of \<open>B.md\<close>
  as the loop of the parser builds it from the lines of the header block.
\<close>

definition vault_B_logged :: world where
  "vault_B_logged =
     snd (log_approval env_mail_ok
            (logger_info (Approval_received (path_name approved_B)) vault_B) approved_B)"

definition yaml_B :: string where
  "yaml_B = ''action_type: send_email'' @ [LF] @
            ''subject: '' @ [DQUOTE] @ ''Missing recipient'' @ [DQUOTE] @ [LF] @
            ''body: This should fail validation.''"

definition lines_B :: "string list" where
  "lines_B =
     [''action_type: send_email'',
      ''subject: '' @ [DQUOTE] @ ''Missing recipient'' @ [DQUOTE],
      ''body: This should fail validation.'']"

definition meta_B :: meta where
  "meta_B = foldl apply_line (Map.empty(''__body__'' \<mapsto> [])) lines_B"

section \<open>Properties of the string functions\<close>

lemma str_index_first: "2 \<le> length v \<Longrightarrow> str_index v 0 = Inr (v ! 0)"
  by (auto simp add: str_index_def)

lemma str_index_last: "2 \<le> length v \<Longrightarrow> str_index v (-1) = Inr (v ! (length v - 1))"
  by (auto simp add: str_index_def nat_diff_distrib' intro!: arg_cong[where f="(!) v"])

lemma str_find_ge: "-1 \<le> str_find s c"
  by (induction s) (auto simp: Let_def)

lemma str_find_none: "str_find s c = -1 \<longleftrightarrow> c \<notin> set s"
proof (induction s)
  case Nil
  then show ?case by simp
next
  case (Cons x xs)
  have "-1 \<le> str_find xs c" by (rule str_find_ge)
  with Cons show ?case by (auto simp: Let_def)
qed

lemma str_find_nonneg: "c \<in> set s \<Longrightarrow> 0 \<le> str_find s c"
  by (induction s) (auto simp: Let_def)

lemma str_find_takeWhile:
  "c \<in> set s \<Longrightarrow> nat (str_find s c) = length (takeWhile (\<lambda>x. x \<noteq> c) s)"
  by (induction s) (auto simp: Let_def str_find_none nat_add_distrib str_find_nonneg)

section \<open>Properties of the frontmatter parser\<close>

lemma strip_quotes_returns: "strip_quotes v = Inr (unquote v)"
  by (simp add: strip_quotes_def unquote_def str_index_first str_index_last)

lemma parse_line_returns:
  "parse_line m l = Inr (if line_skipped l then m else m(line_key l \<mapsto> line_value l))"
proof (cases "line_skipped l")
  case True
  then show ?thesis
    by (auto simp: parse_line_def line_skipped_def Let_def str_find_none)
next
  case False
  let ?s = "strip l"
  let ?k = "takeWhile (\<lambda>x. x \<noteq> CHR '':'') ?s"
  from False have c: "CHR '':'' \<in> set ?s" and ne: "?s \<noteq> []"
    and nh: "\<not> startswith ?s ''#''"
    by (auto simp: line_skipped_def)
  have i: "nat (str_find ?s (CHR '':'')) = length ?k"
    using c by (rule str_find_takeWhile)
  have nn: "0 \<le> str_find ?s (CHR '':'')"
    using c by (rule str_find_nonneg)
  have i1: "nat (str_find ?s (CHR '':'') + 1) = Suc (length ?k)"
    using i nn by (simp add: nat_add_distrib)
  have t: "take (length ?k) ?s = ?k"
    by (metis takeWhile_eq_take)
  have d: "drop (Suc (length ?k)) ?s = drop 1 (dropWhile (\<lambda>x. x \<noteq> CHR '':'') ?s)"
    by (simp add: dropWhile_eq_drop)
  show ?thesis
    using False c ne nh
    by (simp add: parse_line_def Let_def str_find_none i i1 t d strip_quotes_returns
        line_key_def line_value_def)
qed

lemma parse_lines_foldl: "parse_lines m ls = Inr (foldl apply_line m ls)"
  by (induction ls arbitrary: m) (simp_all add: parse_line_returns apply_line_def)










section \<open>Properties of the store\<close>

lemma map_of_remove_entry:
  "map_of (remove_entry p fs) q = (if q = p then None else map_of fs q)"
  by (induction fs) (auto simp: remove_entry_def)

lemma map_of_put_entry:
  "map_of (put_entry p c fs) q = (if q = p then Some c else map_of fs q)"
  by (simp add: put_entry_def map_of_remove_entry)

lemma is_file_lookup: "is_file w p \<longleftrightarrow> lookup_file w p \<noteq> None"
  by (simp add: is_file_def lookup_file_def map_of_eq_None_iff)

lemma mkdir_p_files: "mkdir_p w d = Inr w1 \<Longrightarrow> files w1 = files w"
  by (auto simp: mkdir_p_def split: if_splits)

lemma mkdir_p_lookup: "mkdir_p w d = Inr w1 \<Longrightarrow> lookup_file w1 = lookup_file w"
  by (rule ext) (simp add: lookup_file_def mkdir_p_files)

lemma mkdir_p_is_dir:
  "mkdir_p w d = Inr w1 \<Longrightarrow> is_dir w1 p \<longleftrightarrow> is_dir w p \<or> p \<in> set (ancestors d) \<or> p = d"
  by (auto simp: mkdir_p_def is_dir_def split: if_splits)

lemma mkdir_p_exists_mono: "mkdir_p w d = Inr w1 \<Longrightarrow> path_exists w p \<Longrightarrow> path_exists w1 p"
  by (auto simp: path_exists_def mkdir_p_is_dir is_file_lookup mkdir_p_lookup)

lemma mkdir_p_other:
  "mkdir_p w d = Inr w1 \<Longrightarrow>
     requests w1 = requests w \<and> logged w1 = logged w \<and> clock_reads w1 = clock_reads w"
  by (auto simp: mkdir_p_def split: if_splits)

lemma rename_file:
  assumes "lookup_file w src = Some c" and "is_dir w (path_parent dst)"
  shows "rename w src dst =
     Inr (dst, w\<lparr>files := put_entry dst c (remove_entry src (files w))\<rparr>)"
  using assms by (simp add: rename_def)

lemma shutil_move_file:
  assumes "lookup_file w src = Some c" and "is_dir w (path_parent dst)" and "\<not> is_dir w dst"
  shows "shutil_move w src dst =
     Inr (dst, w\<lparr>files := put_entry dst c (remove_entry src (files w))\<rparr>)"
  using assms by (simp add: shutil_move_def rename_file)

lemma frame_clock [simp]:
  "lookup_file (w\<lparr>clock_reads := n\<rparr>) = lookup_file w"
  "is_file (w\<lparr>clock_reads := n\<rparr>) = is_file w"
  "is_dir (w\<lparr>clock_reads := n\<rparr>) = is_dir w"
  "path_exists (w\<lparr>clock_reads := n\<rparr>) = path_exists w"
  by (auto simp: lookup_file_def is_file_def is_dir_def path_exists_def fun_eq_iff)

lemma frame_logged [simp]:
  "lookup_file (w\<lparr>logged := l\<rparr>) = lookup_file w"
  "is_file (w\<lparr>logged := l\<rparr>) = is_file w"
  "is_dir (w\<lparr>logged := l\<rparr>) = is_dir w"
  "path_exists (w\<lparr>logged := l\<rparr>) = path_exists w"
  by (auto simp: lookup_file_def is_file_def is_dir_def path_exists_def fun_eq_iff)

lemma frame_requests [simp]:
  "lookup_file (w\<lparr>requests := r\<rparr>) = lookup_file w"
  "is_file (w\<lparr>requests := r\<rparr>) = is_file w"
  "is_dir (w\<lparr>requests := r\<rparr>) = is_dir w"
  "path_exists (w\<lparr>requests := r\<rparr>) = path_exists w"
  by (auto simp: lookup_file_def is_file_def is_dir_def path_exists_def fun_eq_iff)

section \<open>Properties of \<open>move_file\<close>\<close>

lemma free_dest_free: "\<not> path_exists w (free_dest w dest_dir stem suffix dest counter)"
  by (induction w dest_dir stem suffix dest counter rule: free_dest.induct)
    (subst free_dest.simps, simp)

lemma free_dest_first:
  "(\<not> path_exists w dest \<and> free_dest w dest_dir stem suffix dest counter = dest) \<or>
   (path_exists w dest \<and>
    (\<exists>k\<ge>counter. free_dest w dest_dir stem suffix dest counter = numbered dest_dir stem suffix k \<and>
       (\<forall>j. counter \<le> j \<and> j < k \<longrightarrow> path_exists w (numbered dest_dir stem suffix j))))"
proof (induction w dest_dir stem suffix dest counter rule: free_dest.induct)
  case (1 w dest_dir stem suffix dest counter)
  show ?case
  proof (cases "path_exists w dest")
    case False
    then show ?thesis
      by (subst free_dest.simps) simp
  next
    case True
    let ?n = "numbered dest_dir stem suffix"
    have step: "free_dest w dest_dir stem suffix dest counter =
        free_dest w dest_dir stem suffix (?n counter) (counter + 1)"
      using True by (subst free_dest.simps) simp
    from 1 [OF True] consider
      (free) "\<not> path_exists w (?n counter)"
        "free_dest w dest_dir stem suffix (?n counter) (counter + 1) = ?n counter"
    | (taken) k where "path_exists w (?n counter)" "counter + 1 \<le> k"
        "free_dest w dest_dir stem suffix (?n counter) (counter + 1) = ?n k"
        "\<forall>j. counter + 1 \<le> j \<and> j < k \<longrightarrow> path_exists w (?n j)"
      by blast
    then show ?thesis
    proof cases
      case free
      with True step show ?thesis
        by (intro disjI2 conjI exI [of _ counter]) auto
    next
      case taken
      have "\<forall>j. counter \<le> j \<and> j < k \<longrightarrow> path_exists w (?n j)"
      proof (intro allI impI)
        fix j assume j: "counter \<le> j \<and> j < k"
        show "path_exists w (?n j)"
        proof (cases "j = counter")
          case True
          with taken(1) show ?thesis by simp
        next
          case False
          with j have "counter + 1 \<le> j \<and> j < k" by simp
          with taken(4) show ?thesis by blast
        qed
      qed
      with True step taken(2,3) show ?thesis
        by (intro disjI2 conjI exI [of _ k]) auto
    qed
  qed
qed

lemma free_dest_below:
  "free_dest w dest_dir stem suffix (joinpath dest_dir n) counter = joinpath dest_dir n \<or>
   (\<exists>k. free_dest w dest_dir stem suffix (joinpath dest_dir n) counter =
      numbered dest_dir stem suffix k)"
  using free_dest_first [of w "joinpath dest_dir n" dest_dir stem suffix counter] by blast

text \<open>
  What one call of \<open>move_file\<close> does when its source is a regular file and the
  destination directory can be made.
\<close>

lemma move_file_moves:
  fixes pre :: string
  assumes src: "lookup_file w src = Some c"
    and mk: "mkdir_p w dest_dir = Inr w1"
  defines "first \<equiv> joinpath dest_dir (pre @ path_name src)"
  defines "dest \<equiv> free_dest w1 dest_dir (path_stem src) (path_suffix src) first 1"
  shows "\<exists>w'. move_file w src dest_dir pre = (Inr dest, w') \<and>
     \<not> path_exists w1 dest \<and> \<not> path_exists w dest \<and> dest \<noteq> src \<and>
     path_parent dest = dest_dir \<and>
     lookup_file w' dest = Some c \<and> lookup_file w' src = None \<and>
     (\<forall>p. p \<noteq> src \<and> p \<noteq> dest \<longrightarrow> lookup_file w' p = lookup_file w p) \<and>
     dirs w' = dirs w1 \<and> requests w' = requests w \<and> logged w' = logged w \<and>
     clock_reads w' = clock_reads w"
proof -
  have free1: "\<not> path_exists w1 dest"
    unfolding dest_def by (rule free_dest_free)
  then have free: "\<not> path_exists w dest"
    using mk mkdir_p_exists_mono by blast
  have src1: "lookup_file w1 src = Some c"
    using src mk by (simp add: mkdir_p_lookup)
  have neq: "dest \<noteq> src"
    using free src by (auto simp: path_exists_def is_file_lookup)
  have dd: "is_dir w1 dest_dir"
    using mk by (simp add: mkdir_p_is_dir)
  have "dest = first \<or> (\<exists>k. dest = numbered dest_dir (path_stem src) (path_suffix src) k)"
    unfolding dest_def first_def by (rule free_dest_below)
  then have par: "path_parent dest = dest_dir"
  proof
    assume "dest = first"
    with free1 dd show ?thesis
      by (auto simp: first_def joinpath_def path_parent_def path_exists_def split: if_splits)
  next
    assume "\<exists>k. dest = numbered dest_dir (path_stem src) (path_suffix src) k"
    then show ?thesis
      by (auto simp: numbered_def joinpath_def path_parent_def)
  qed
  have nd: "\<not> is_dir w1 dest"
    using free1 by (simp add: path_exists_def)
  have mv: "shutil_move w1 src dest =
      Inr (dest, w1\<lparr>files := put_entry dest c (remove_entry src (files w1))\<rparr>)"
    using src1 dd nd par by (intro shutil_move_file) simp_all
  let ?w' = "w1\<lparr>files := put_entry dest c (remove_entry src (files w1))\<rparr>"
  have nn: "(if pre \<noteq> [] then pre @ path_name src else path_name src) = pre @ path_name src"
    by simp
  have res: "move_file w src dest_dir pre = (Inr dest, ?w')"
    using mv unfolding move_file_def Let_def nn dest_def first_def
    by (simp add: mk)
  have look: "lookup_file ?w' p = (if p = dest then Some c else if p = src then None
      else lookup_file w p)" for p
    using mk by (simp add: lookup_file_def map_of_put_entry map_of_remove_entry mkdir_p_files)
  show ?thesis
    using res free1 free neq par look mkdir_p_other [OF mk] by (intro exI [of _ ?w']) simp
qed

lemma mkdir_p_present:
  assumes "is_dir w d" and "\<forall>a\<in>set (ancestors d). is_dir w a"
    and "\<not> is_file w d" and "\<forall>a\<in>set (ancestors d). \<not> is_file w a"
  shows "mkdir_p w d = Inr w"
proof -
  have "filter (\<lambda>a. \<not> is_dir w a) (ancestors d @ [d]) = []"
    using assms(1,2) by (auto simp: filter_empty_conv)
  moreover have "\<not> list_ex (is_file w) (ancestors d)"
    using assms(4) by (simp add: list_ex_iff)
  ultimately show ?thesis
    using assms(3) by (simp add: mkdir_p_def)
qed

lemma mkdir_p_no_file_above:
  assumes "mkdir_p w d = Inr w1"
  shows "\<not> is_file w d \<and> (\<forall>a\<in>set (ancestors d). \<not> is_file w a)"
  using assms by (auto simp: mkdir_p_def list_ex_iff split: if_splits)

text \<open>
  Claim C4. A record \<open>src\<close> that is a regular file, moved into a directory that can be
  made, with or without a prefix, ends at a path \<open>dest\<close> of the directory at which
  nothing stood before: the first free one among the prefixed name and then
  \<open>stem_1.suffix\<close>, \<open>stem_2.suffix\<close>, ..., every earlier one being taken. The record is
  at \<open>dest\<close> with its content, it is gone from \<open>src\<close>, and every other file is as it
  was, so no file is overwritten. A second, different record moved into the same
  directory afterwards, under any prefix and so also when it asks for the same name,
  ends at a different path, and both records are there with their own contents. The
  loop that finds the name always ends (\<open>free_dest\<close> is total).
\<close>

theorem move_file_never_overwrites:
  fixes pre pre2 :: string
  assumes "lookup_file w src = Some c" and "mkdir_p w dest_dir = Inr w1"
  shows "\<exists>dest w'. move_file w src dest_dir pre = (Inr dest, w') \<and>
     \<not> path_exists w1 dest \<and>
     ((\<not> path_exists w1 (joinpath dest_dir (pre @ path_name src)) \<and>
        dest = joinpath dest_dir (pre @ path_name src)) \<or>
      (path_exists w1 (joinpath dest_dir (pre @ path_name src)) \<and>
        (\<exists>k\<ge>1. dest = numbered dest_dir (path_stem src) (path_suffix src) k \<and>
           (\<forall>j. 1 \<le> j \<and> j < k \<longrightarrow>
              path_exists w1 (numbered dest_dir (path_stem src) (path_suffix src) j))))) \<and>
     lookup_file w' dest = Some c \<and> lookup_file w' src = None \<and>
     (\<forall>p. p \<noteq> src \<and> p \<noteq> dest \<longrightarrow> lookup_file w' p = lookup_file w p) \<and>
     (\<forall>src2 c2. src2 \<noteq> src \<and> lookup_file w src2 = Some c2 \<longrightarrow>
        (\<exists>dest2 w''. move_file w' src2 dest_dir pre2 = (Inr dest2, w'') \<and>
           dest2 \<noteq> dest \<and> \<not> path_exists w' dest2 \<and>
           lookup_file w'' dest = Some c \<and> lookup_file w'' dest2 = Some c2 \<and>
           (\<forall>p. p \<noteq> src \<and> p \<noteq> src2 \<and> p \<noteq> dest \<and> p \<noteq> dest2 \<longrightarrow>
              lookup_file w'' p = lookup_file w p)))"
proof -
  let ?first = "joinpath dest_dir (pre @ path_name src)"
  let ?dest = "free_dest w1 dest_dir (path_stem src) (path_suffix src) ?first 1"
  from move_file_moves [OF assms, of pre] obtain w' where
    res: "move_file w src dest_dir pre = (Inr ?dest, w')" and
    free1: "\<not> path_exists w1 ?dest" and free: "\<not> path_exists w ?dest" and
    par: "path_parent ?dest = dest_dir" and
    at: "lookup_file w' ?dest = Some c" and gone: "lookup_file w' src = None" and
    frame: "\<forall>p. p \<noteq> src \<and> p \<noteq> ?dest \<longrightarrow> lookup_file w' p = lookup_file w p" and
    dirs': "dirs w' = dirs w1"
    by blast
  have name: "(\<not> path_exists w1 ?first \<and> ?dest = ?first) \<or>
      (path_exists w1 ?first \<and>
        (\<exists>k\<ge>1. ?dest = numbered dest_dir (path_stem src) (path_suffix src) k \<and>
           (\<forall>j. 1 \<le> j \<and> j < k \<longrightarrow>
              path_exists w1 (numbered dest_dir (path_stem src) (path_suffix src) j))))"
    by (rule free_dest_first)
  have isdir': "is_dir w' p \<longleftrightarrow> is_dir w1 p" for p
    by (simp add: is_dir_def dirs')
  have nofile: "\<not> is_file w dest_dir \<and> (\<forall>a\<in>set (ancestors dest_dir). \<not> is_file w a)"
    using assms(2) by (rule mkdir_p_no_file_above)
  have dirs1: "is_dir w1 dest_dir \<and> (\<forall>a\<in>set (ancestors dest_dir). is_dir w1 a)"
    using assms(2) by (simp add: mkdir_p_is_dir)
  have notdest: "p \<noteq> ?dest" if "is_dir w1 p" for p
    using that free1 by (auto simp: path_exists_def)
  have look': "lookup_file w' p =
      (if p = ?dest then Some c else if p = src then None else lookup_file w p)" for p
    using at gone frame by simp
  have file': "is_file w' p \<longleftrightarrow> p = ?dest \<or> (p \<noteq> src \<and> is_file w p)" for p
    by (simp add: is_file_lookup look')
  have mk': "mkdir_p w' dest_dir = Inr w'"
  proof (rule mkdir_p_present)
    show "is_dir w' dest_dir"
      using dirs1 by (simp add: isdir')
    show "\<forall>a\<in>set (ancestors dest_dir). is_dir w' a"
      using dirs1 by (simp add: isdir')
    show "\<not> is_file w' dest_dir"
      using nofile dirs1 notdest by (auto simp: file')
    show "\<forall>a\<in>set (ancestors dest_dir). \<not> is_file w' a"
      using nofile dirs1 notdest by (auto simp: file')
  qed
  have second: "\<exists>dest2 w''. move_file w' src2 dest_dir pre2 = (Inr dest2, w'') \<and>
           dest2 \<noteq> ?dest \<and> \<not> path_exists w' dest2 \<and>
           lookup_file w'' ?dest = Some c \<and> lookup_file w'' dest2 = Some c2 \<and>
           (\<forall>p. p \<noteq> src \<and> p \<noteq> src2 \<and> p \<noteq> ?dest \<and> p \<noteq> dest2 \<longrightarrow>
              lookup_file w'' p = lookup_file w p)"
    if s2: "src2 \<noteq> src \<and> lookup_file w src2 = Some c2" for src2 c2
  proof -
    have ne: "src2 \<noteq> ?dest"
      using s2 free by (auto simp: path_exists_def is_file_lookup)
    with s2 frame have src2': "lookup_file w' src2 = Some c2"
      by simp
    let ?dest2 = "free_dest w' dest_dir (path_stem src2) (path_suffix src2)
        (joinpath dest_dir (pre2 @ path_name src2)) 1"
    from move_file_moves [OF src2' mk', of pre2] obtain w'' where
      res2: "move_file w' src2 dest_dir pre2 = (Inr ?dest2, w'')" and
      free2: "\<not> path_exists w' ?dest2" and
      at2: "lookup_file w'' ?dest2 = Some c2" and
      frame2: "\<forall>p. p \<noteq> src2 \<and> p \<noteq> ?dest2 \<longrightarrow> lookup_file w'' p = lookup_file w' p"
      by blast
    have d: "?dest2 \<noteq> ?dest"
      using free2 at by (auto simp: path_exists_def is_file_lookup)
    have keep: "lookup_file w'' ?dest = Some c"
      using frame2 ne d at by simp
    have rest: "\<forall>p. p \<noteq> src \<and> p \<noteq> src2 \<and> p \<noteq> ?dest \<and> p \<noteq> ?dest2 \<longrightarrow>
        lookup_file w'' p = lookup_file w p"
      using frame frame2 by simp
    show ?thesis
      using res2 d free2 keep at2 rest by blast
  qed
  show ?thesis
    using res free1 name at gone frame second by blast
qed

lemma vault_two_records_first_move:
  "move_file vault_two_records inbox_x Done [] = (Inr done_x_1, vault_after_first_move)"
  by code_simp

lemma vault_two_records_second_move:
  "fst (move_file vault_after_first_move approved_x Done []) = Inr done_x_2"
  by code_simp

lemma vault_two_records_facts:
  "lookup_file vault_two_records inbox_x = Some (Text ''one'') \<and>
   lookup_file vault_two_records approved_x = Some (Text ''two'') \<and>
   lookup_file vault_two_records done_x = Some (Text ''old'') \<and>
   mkdir_p vault_two_records Done = Inr vault_two_records"
  by code_simp

lemma example_paths_differ:
  "approved_x \<noteq> inbox_x \<and> done_x \<noteq> inbox_x \<and> done_x \<noteq> approved_x \<and>
   done_x \<noteq> done_x_1 \<and> done_x \<noteq> done_x_2"
  by code_simp

theorem move_file_never_overwrites_witness:
  "lookup_file vault_two_records inbox_x = Some (Text ''one'') \<and>
   mkdir_p vault_two_records Done = Inr vault_two_records \<and>
   (\<exists>w' w''.
      move_file vault_two_records inbox_x Done [] = (Inr done_x_1, w') \<and>
      move_file w' approved_x Done [] = (Inr done_x_2, w'') \<and>
      lookup_file w'' done_x_1 = Some (Text ''one'') \<and>
      lookup_file w'' done_x_2 = Some (Text ''two'') \<and>
      lookup_file w'' done_x = Some (Text ''old''))"
proof -
  let ?w = vault_two_records
  note f = vault_two_records_facts
  from f have h1: "lookup_file ?w inbox_x = Some (Text ''one'')"
    and h2: "mkdir_p ?w Done = Inr ?w"
    by blast+
  from move_file_never_overwrites [OF h1 h2, of "[]" "[]"] obtain dest w' where
    m1: "move_file ?w inbox_x Done [] = (Inr dest, w')" and
    second: "\<forall>src2 c2. src2 \<noteq> inbox_x \<and> lookup_file ?w src2 = Some c2 \<longrightarrow>
        (\<exists>dest2 w''. move_file w' src2 Done [] = (Inr dest2, w'') \<and>
           dest2 \<noteq> dest \<and> \<not> path_exists w' dest2 \<and>
           lookup_file w'' dest = Some (Text ''one'') \<and> lookup_file w'' dest2 = Some c2 \<and>
           (\<forall>p. p \<noteq> inbox_x \<and> p \<noteq> src2 \<and> p \<noteq> dest \<and> p \<noteq> dest2 \<longrightarrow>
              lookup_file w'' p = lookup_file ?w p))"
    by blast
  from m1 [unfolded vault_two_records_first_move]
  have d: "dest = done_x_1" and w': "w' = vault_after_first_move"
    by blast+
  have "approved_x \<noteq> inbox_x \<and> lookup_file ?w approved_x = Some (Text ''two'')"
    using f example_paths_differ by blast
  with second obtain dest2 w'' where
    m2: "move_file w' approved_x Done [] = (Inr dest2, w'')" and
    k1: "lookup_file w'' dest = Some (Text ''one'')" and
    k2: "lookup_file w'' dest2 = Some (Text ''two'')" and
    rest: "\<forall>p. p \<noteq> inbox_x \<and> p \<noteq> approved_x \<and> p \<noteq> dest \<and> p \<noteq> dest2 \<longrightarrow>
              lookup_file w'' p = lookup_file ?w p"
    by blast
  from m2 have "fst (move_file w' approved_x Done []) = Inr dest2"
    by (simp only: fst_conv)
  then have d2: "dest2 = done_x_2"
    unfolding w' vault_two_records_second_move by blast
  from rest example_paths_differ
  have "lookup_file w'' done_x = lookup_file ?w done_x"
    unfolding d d2 by blast
  with f have k3: "lookup_file w'' done_x = Some (Text ''old'')"
    by (simp only:)
  show ?thesis
    using h1 h2 m1 m2 k1 k2 k3 unfolding d d2 by blast
qed

section \<open>Properties of \<open>move_to_error\<close> and of the processing dispatcher\<close>


lemma error_dir_of_Logs: "error_dir_of t Logs = [''Logs'', ''Error_'' @ stamp t]"
  by (simp add: error_dir_of_def joinpath_def Logs_def)









section \<open>Properties of the action executors\<close>


lemma write_text_lookup:
  "write_text w p s = Inr w' \<Longrightarrow>
     lookup_file w' q = (if q = p then Some (Text s) else lookup_file w q)"
  by (auto simp: write_text_def lookup_file_def map_of_put_entry split: if_splits)
















section \<open>Properties of the duplicate guard\<close>

lemma guard_enter_keeps: "K \<in> processing \<Longrightarrow> K \<in> snd (guard_enter processing ev)"
  by (simp add: guard_enter_def)

lemma guard_steps_keeps:
  assumes "K \<in> processing"
    and "\<forall>x. Finished x \<in> set steps \<longrightarrow> path_name (src_path x) \<noteq> K"
  shows "K \<in> guard_steps processing steps"
  using assms
proof (induction steps arbitrary: processing)
  case Nil
  then show ?case by simp
next
  case (Cons s steps)
  show ?case
  proof (cases s)
    case (Notified ev)
    with Cons show ?thesis
      by (simp add: guard_enter_keeps)
  next
    case (Finished ev)
    with Cons.prems have "K \<in> guard_exit processing ev"
      by (auto simp: guard_exit_def)
    with Cons Finished show ?thesis
      by simp
  qed
qed

text \<open>
  Claim C6. Let \<open>ev\<close> be the creation of a record (no directory, suffix \<open>.md\<close>) and \<open>K\<close>
  its file name. If \<open>K\<close> is not in the set of the handler, the notification enters and
  puts \<open>K\<close> into the set. While \<open>K\<close> is in the set, a notification for \<open>K\<close> is dropped:
  \<open>on_created\<close> of either handler returns without handling and leaves set and world as
  they are; and \<open>K\<close> stays in the set through any notifications and any ends of
  handlings of other names, so this lasts until the handling of \<open>K\<close> ends. A whole call
  of \<open>on_created\<close> that handles \<open>K\<close> leaves the set as it found it, whether the handling
  returned or raised; and once the \<open>finally\<close> clause has run, a notification for \<open>K\<close>
  enters again. The first lines of \<open>on_created\<close> are taken as one step.
\<close>

theorem guard_suppresses_until_release:
  fixes ev :: event and processing :: "string set"
  defines "K \<equiv> path_name (src_path ev)"
  assumes "\<not> is_directory ev" and "path_suffix (src_path ev) = ''.md''"
  shows "(K \<notin> processing \<longrightarrow> guard_enter processing ev = (Enter, insert K processing)) \<and>
     (K \<in> processing \<longrightarrow>
        guard_enter processing ev = (Drop, processing) \<and>
        needs_action_on_created e (processing, w) ev = (Dropped, processing, w) \<and>
        approval_on_created e (processing, w) ev = (Dropped, processing, w)) \<and>
     (K \<in> processing \<and> (\<forall>x. Finished x \<in> set steps \<longrightarrow> path_name (src_path x) \<noteq> K) \<longrightarrow>
        K \<in> guard_steps processing steps \<and>
        guard_enter (guard_steps processing steps) ev = (Drop, guard_steps processing steps)) \<and>
     (K \<notin> processing \<longrightarrow>
        needs_action_on_created e (processing, w) ev =
          (Handled (fst (handle_new_task e w (src_path ev))), processing,
           snd (handle_new_task e w (src_path ev))) \<and>
        approval_on_created e (processing, w) ev =
          (Handled (fst (handle_approval e w (src_path ev))), processing,
           snd (handle_approval e w (src_path ev)))) \<and>
     K \<notin> guard_exit held ev \<and>
     guard_enter (guard_exit held ev) ev = (Enter, insert K (guard_exit held ev))"
proof (intro conjI impI)
  assume "K \<notin> processing"
  then show "guard_enter processing ev = (Enter, insert K processing)"
    using assms(2,3) by (simp add: guard_enter_def K_def)
next
  assume h: "K \<in> processing"
  then show d: "guard_enter processing ev = (Drop, processing)"
    using assms(2,3) by (simp add: guard_enter_def K_def)
  then show "needs_action_on_created e (processing, w) ev = (Dropped, processing, w)"
    by (simp add: needs_action_on_created_def)
  from d show "approval_on_created e (processing, w) ev = (Dropped, processing, w)"
    by (simp add: approval_on_created_def)
next
  assume h: "K \<in> processing \<and>
      (\<forall>x. Finished x \<in> set steps \<longrightarrow> path_name (src_path x) \<noteq> K)"
  then show k: "K \<in> guard_steps processing steps"
    by (intro guard_steps_keeps) simp_all
  then show "guard_enter (guard_steps processing steps) ev =
      (Drop, guard_steps processing steps)"
    using assms(2,3) by (simp add: guard_enter_def K_def)
next
  assume n: "K \<notin> processing"
  then have en: "guard_enter processing ev = (Enter, insert K processing)"
    using assms(2,3) by (simp add: guard_enter_def K_def)
  have restored: "guard_exit (insert K processing) ev = processing"
    using n by (auto simp: guard_exit_def K_def)
  show "needs_action_on_created e (processing, w) ev =
          (Handled (fst (handle_new_task e w (src_path ev))), processing,
           snd (handle_new_task e w (src_path ev)))"
    by (simp add: needs_action_on_created_def en restored split: prod.splits)
  show "approval_on_created e (processing, w) ev =
          (Handled (fst (handle_approval e w (src_path ev))), processing,
           snd (handle_approval e w (src_path ev)))"
    by (simp add: approval_on_created_def en restored split: prod.splits)
next
  show r: "K \<notin> guard_exit held ev"
    by (simp add: guard_exit_def K_def)
  then show "guard_enter (guard_exit held ev) ev = (Enter, insert K (guard_exit held ev))"
    using assms(2,3) by (simp add: guard_enter_def K_def)
qed

lemma guard_example_facts:
  "\<not> is_directory ev_a \<and> path_suffix (src_path ev_a) = ''.md'' \<and>
   path_name (src_path ev_a) \<in> held_a \<and>
   path_name (src_path ev_a) \<notin> {} \<and>
   src_path ev_a = inbox_a \<and>
   fst (handle_new_task env_failing vault_blocked inbox_a) = Inl FileExistsError"
  by code_simp

theorem guard_suppresses_until_release_witness:
  "\<not> is_directory ev_a \<and> path_suffix (src_path ev_a) = ''.md'' \<and>
   path_name (src_path ev_a) \<in> held_a \<and>
   guard_enter {} ev_a = (Enter, {path_name (src_path ev_a)}) \<and>
   guard_enter held_a ev_a = (Drop, held_a) \<and>
   needs_action_on_created env_failing (held_a, vault_task_a) ev_a =
     (Dropped, held_a, vault_task_a) \<and>
   needs_action_on_created env_failing ({}, vault_blocked) ev_a =
     (Handled (Inl FileExistsError), {},
      snd (handle_new_task env_failing vault_blocked inbox_a))"
proof -
  note f = guard_example_facts
  from f have h1: "\<not> is_directory ev_a" by (rule conjunct1)
  from f have h2: "path_suffix (src_path ev_a) = ''.md''"
    by (rule conjunct2 [THEN conjunct1])
  from f have h3: "path_name (src_path ev_a) \<in> held_a"
    by (rule conjunct2 [THEN conjunct2, THEN conjunct1])
  from f have h4: "path_name (src_path ev_a) \<notin> {}"
    by (rule conjunct2 [THEN conjunct2, THEN conjunct2, THEN conjunct1])
  from f have h5: "src_path ev_a = inbox_a"
    by (rule conjunct2 [THEN conjunct2, THEN conjunct2, THEN conjunct2, THEN conjunct1])
  from f have h6: "fst (handle_new_task env_failing vault_blocked inbox_a) = Inl FileExistsError"
    by (rule conjunct2 [THEN conjunct2, THEN conjunct2, THEN conjunct2, THEN conjunct2])
  note free = guard_suppresses_until_release [OF h1 h2,
      where processing = "{}" and e = env_failing and w = vault_blocked]
  note held = guard_suppresses_until_release [OF h1 h2,
      where processing = held_a and e = env_failing and w = vault_task_a]
  from free [THEN conjunct1, THEN mp, OF h4]
  have a: "guard_enter {} ev_a = (Enter, {path_name (src_path ev_a)})" .
  from held [THEN conjunct2, THEN conjunct1, THEN mp, OF h3]
  have b: "guard_enter held_a ev_a = (Drop, held_a) \<and>
      needs_action_on_created env_failing (held_a, vault_task_a) ev_a =
        (Dropped, held_a, vault_task_a)"
    by (elim conjE) (intro conjI)
  from free [THEN conjunct2, THEN conjunct2, THEN conjunct2, THEN conjunct1, THEN mp, OF h4,
      THEN conjunct1]
  have c: "needs_action_on_created env_failing ({}, vault_blocked) ev_a =
     (Handled (Inl FileExistsError), {},
      snd (handle_new_task env_failing vault_blocked inbox_a))"
    unfolding h5 h6 .
  from h1 h2 h3 a b c show ?thesis
    by (intro conjI) (elim conjE, assumption)+
qed

section \<open>The approval dispatcher on a directive that fails validation\<close>

lemma vault_B_logging:
  "path_exists (logger_info (Approval_received (path_name approved_B)) vault_B) approved_B \<and>
   fst (log_approval env_mail_ok
          (logger_info (Approval_received (path_name approved_B)) vault_B) approved_B) = Inr ()"
  by code_simp

lemma vault_B_logged_read:
  "read_text vault_B_logged approved_B = Inr doc_B \<and>
   path_exists vault_B_logged approved_B"
  by code_simp

lemma doc_B_match:
  "frontmatter_match doc_B = Some (yaml_B, []) \<and> splitlines yaml_B = lines_B \<and>
   strip [] = []"
  by code_simp

lemma parse_B: "parse_frontmatter vault_B_logged approved_B = Inr meta_B"
  by (simp only: parse_frontmatter_def vault_B_logged_read [THEN conjunct1] sum.case
      parse_text_def doc_B_match [THEN conjunct1] option.case prod.case
      doc_B_match [THEN conjunct2, THEN conjunct1] doc_B_match [THEN conjunct2, THEN conjunct2]
      parse_lines_foldl meta_B_def)

lemma meta_B_fields:
  "lower (strip (dict_get meta_B ''action_type'' [])) = ''send_email'' \<and>
   strip (dict_get meta_B ''to'' []) = []"
  by code_simp

lemma execute_B: "execute_action env_mail_ok vault_B_logged approved_B meta_B =
    (Inr False, vault_B_logged)"
  by (simp add: execute_action_def meta_B_fields dispatch_def action_send_email_def)

lemma alert_B_written:
  "fst (create_failure_notification env_mail_ok vault_B_logged approved_B meta_B) = Inr () \<and>
   map fst (files (snd (create_failure_notification env_mail_ok vault_B_logged approved_B
      meta_B))) = [alert_B, approval_log_B, approved_B] \<and>
   requests (snd (create_failure_notification env_mail_ok vault_B_logged approved_B meta_B)) = []"
  by code_simp

text \<open>
  Claim C2 at the record \<open>B.md\<close>, a message without recipient. The dispatch fails at
  validation; the handler returns, the record is still in the approved folder and
  the alert is in the inbox. The files of the vault are then the alert, the log of the
  approval and the record: no \<open>ACTION_FAILED\<close> entry was written, and no request was
  sent.
\<close>

theorem handle_approval_validation_failure_writes_no_audit_entry:
  "fst (handle_approval env_mail_ok vault_B approved_B) = Inr () \<and>
   map fst (files (snd (handle_approval env_mail_ok vault_B approved_B))) =
     [alert_B, approval_log_B, approved_B] \<and>
   requests (snd (handle_approval env_mail_ok vault_B approved_B)) = []"
proof -
  have l: "log_approval env_mail_ok
      (logger_info (Approval_received (path_name approved_B)) vault_B) approved_B =
      (Inr (), vault_B_logged)"
    using vault_B_logging by (simp add: vault_B_logged_def prod_eq_iff)
  have "handle_approval env_mail_ok vault_B approved_B =
      create_failure_notification env_mail_ok vault_B_logged approved_B meta_B"
    unfolding handle_approval_def Let_def
    by (simp add: vault_B_logging l parse_B meta_B_fields execute_B vault_B_logged_read)
  then show ?thesis
    by (simp only: alert_B_written)
qed

end
